theory Spec2Isabelle
  imports Complex_Main
begin

section \<open>Values exchanged with the tools\<close>

text \<open>
  The tools are TypeScript run on a JavaScript engine. A JavaScript number is modelled as a
  \<^typ>\<open>real\<close>: the arithmetic of the model is exact, the rounding of IEEE doubles is
  not represented. Strings are byte lists.

  The statistics handed to \<open>calculatePressure\<close> have the schema \<open>z.array(z.any())\<close>:
  every entry is an arbitrary JSON value, so the model keeps all six kinds of JSON value.
\<close>

datatype json =
    JNull
  | JBool bool
  | JNum real
  | JStr string
  | JArr "json list"
  | JObj "(string \<times> json) list"

text \<open>The exceptions that reach a \<open>catch\<close> clause of the tools.\<close>

datatype js_error =
    ReadPropertyOfNull        \<comment> \<open>\<open>null.statistics\<close>, \<open>null.type\<close>\<close>
  | ReadPropertyOfUndefined   \<comment> \<open>\<open>rows[0].threshold_total\<close> when the query returned no row\<close>
  | NotIterable               \<comment> \<open>\<open>for (... of x)\<close> where \<open>x\<close> is a number, \<open>true\<close> or an object\<close>
  | NotAFunction              \<comment> \<open>\<open>item.type.toLowerCase\<close> where \<open>item.type\<close> is not a string\<close>
  | DatabaseError             \<comment> \<open>\<open>client.connect\<close> or \<open>client.query\<close> rejected\<close>

text \<open>
  The \<open>error\<close> field of a result is either a string literal of the source or the
  \<open>message\<close> of a caught exception, whose text belongs to the engine.
\<close>

datatype err_msg = Literal string | EngineMessage js_error

definition thenE :: "'e + 'a \<Rightarrow> ('a \<Rightarrow> 'e + 'b) \<Rightarrow> 'e + 'b" where
  "thenE m f = (case m of Inl e \<Rightarrow> Inl e | Inr a \<Rightarrow> f a)"

text \<open>
  \<open>x.name\<close> for one of the names \<open>statistics\<close>, \<open>type\<close>, \<open>value\<close>: reading from
  \<open>null\<close> throws; an object yields its own property (the last one of that name, as
  \<open>JSON.parse\<close> keeps it) or \<open>undefined\<close>, which is \<open>None\<close> here; every other value
  has no such property.
\<close>

fun get_prop :: "json \<Rightarrow> string \<Rightarrow> js_error + json option" where
  "get_prop JNull name = Inl ReadPropertyOfNull"
| "get_prop (JObj kvs) name = Inr (map_of (rev kvs) name)"
| "get_prop v name = Inr None"

text \<open>JavaScript truthiness, for \<open>team.statistics || []\<close>.\<close>

fun truthy :: "json \<Rightarrow> bool" where
  "truthy JNull = False"
| "truthy (JBool b) = b"
| "truthy (JNum n) = (n \<noteq> 0)"
| "truthy (JStr s) = (s \<noteq> [])"
| "truthy (JArr xs) = True"
| "truthy (JObj kvs) = True"

text \<open>The values a \<open>for ... of\<close> loop runs through: an array's elements, a string's characters.\<close>

fun iterate :: "json \<Rightarrow> js_error + json list" where
  "iterate (JArr xs) = Inr xs"
| "iterate (JStr s) = Inr (map (\<lambda>c. JStr [c]) s)"
| "iterate v = Inl NotIterable"

subsection \<open>String built-ins\<close>

text \<open>\<open>String.prototype.toLowerCase\<close> on the ASCII letters.\<close>

definition lowerChar :: "char \<Rightarrow> char" where
  "lowerChar c =
     (case map_of (zip ''ABCDEFGHIJKLMNOPQRSTUVWXYZ'' ''abcdefghijklmnopqrstuvwxyz'') c of
        None \<Rightarrow> c
      | Some l \<Rightarrow> l)"

definition toLowerCase :: "string \<Rightarrow> string" where
  "toLowerCase s = map lowerChar s"

text \<open>
  \<open>parseInt(s, 10)\<close>: leading white space (here the six ASCII white-space characters)
  is skipped, one sign is read, then the longest run of decimal digits; with no digit the
  result is \<open>NaN\<close>, which is \<open>None\<close> here.
\<close>

definition isWhiteSpace :: "char \<Rightarrow> bool" where
  "isWhiteSpace c = ((of_char c :: nat) \<in> {9, 10, 11, 12, 13, 32})"

definition isDigit :: "char \<Rightarrow> bool" where
  "isDigit c = (48 \<le> (of_char c :: nat) \<and> (of_char c :: nat) \<le> 57)"

definition digitsValue :: "string \<Rightarrow> int" where
  "digitsValue ds = foldl (\<lambda>a c. 10 * a + (int (of_char c) - 48)) 0 ds"

definition parseInt10 :: "string \<Rightarrow> int option" where
  "parseInt10 s =
     (let s1 = dropWhile isWhiteSpace s;
          neg = (case s1 of [] \<Rightarrow> False | c # r \<Rightarrow> c = CHR ''-'');
          s2 = (case s1 of [] \<Rightarrow> [] | c # r \<Rightarrow> if c = CHR ''-'' \<or> c = CHR ''+'' then r else s1);
          ds = takeWhile isDigit s2
      in if ds = [] then None
         else Some (if neg then - digitsValue ds else digitsValue ds))"

text \<open>\<open>parseInt(val, 10) || 0\<close>: \<open>NaN\<close> and \<open>0\<close> are falsy.\<close>

definition parseInt10_or0 :: "string \<Rightarrow> real" where
  "parseInt10_or0 s = (case parseInt10 s of None \<Rightarrow> 0 | Some n \<Rightarrow> real_of_int n)"

section \<open>PressureScorer: the tool \<open>calculatePressure\<close>\<close>

record pressure_result =
  pressHome :: real
  pressAway :: real
  pressTotal :: real
  pressDiff :: real
  attacksHome :: real
  attacksAway :: real
  shotsHome :: real
  shotsAway :: real
  cornersHome :: real
  cornersAway :: real
  success :: bool
  error :: "err_msg option"

text \<open>
  \<open>item.type?.toLowerCase() === key.toLowerCase()\<close>. The optional chain stops at a
  missing or \<open>null\<close> type, and \<open>undefined\<close> is not equal to a string; a type that is
  neither missing nor a string has no \<open>toLowerCase\<close> to call.
\<close>

definition typeMatches :: "json \<Rightarrow> string \<Rightarrow> js_error + bool" where
  "typeMatches item key =
     thenE (get_prop item ''type'') (\<lambda>t.
       case t of
         None \<Rightarrow> Inr False
       | Some JNull \<Rightarrow> Inr False
       | Some (JStr s) \<Rightarrow> Inr (toLowerCase s = toLowerCase key)
       | Some _ \<Rightarrow> Inl NotAFunction)"

text \<open>
  The \<open>for\<close> loop of \<open>getStatValue\<close>. A matching item whose value is neither absent,
  a number nor a string returns nothing, and the loop goes on to the next item.
\<close>

fun statLoop :: "string \<Rightarrow> json list \<Rightarrow> js_error + real" where
  "statLoop key [] = Inr 0"
| "statLoop key (item # rest) =
     thenE (typeMatches item key) (\<lambda>m.
       if m then
         thenE (get_prop item ''value'') (\<lambda>val.
           case val of
             None \<Rightarrow> Inr 0
           | Some JNull \<Rightarrow> Inr 0
           | Some (JNum n) \<Rightarrow> Inr n
           | Some (JStr s) \<Rightarrow> Inr (parseInt10_or0 s)
           | Some _ \<Rightarrow> statLoop key rest)
       else statLoop key rest)"

definition getStatValue :: "json \<Rightarrow> string \<Rightarrow> js_error + real" where
  "getStatValue team key =
     thenE (get_prop team ''statistics'') (\<lambda>st.
       let statistics = (case st of None \<Rightarrow> JArr [] | Some v \<Rightarrow> if truthy v then v else JArr [])
       in thenE (iterate statistics) (statLoop key))"

definition failed :: "err_msg \<Rightarrow> pressure_result" where
  "failed msg =
     \<lparr> pressHome = 0, pressAway = 0, pressTotal = 0, pressDiff = 0,
       attacksHome = 0, attacksAway = 0, shotsHome = 0, shotsAway = 0,
       cornersHome = 0, cornersAway = 0, success = False, error = Some msg \<rparr>"

text \<open>Lines 84 to 108: the weighted sums and the result of the successful path.\<close>

definition scored :: "real \<Rightarrow> real \<Rightarrow> real \<Rightarrow> real \<Rightarrow> real \<Rightarrow> real \<Rightarrow> pressure_result" where
  "scored aH aA sH sA cH cA =
     (let pH = aH * 0.5 + sH * 1.5 + cH * 0.8;
          pA = aA * 0.5 + sA * 1.5 + cA * 0.8;
          pT = pH + pA;
          pD = \<bar>pH - pA\<bar>
      in \<lparr> pressHome = pH, pressAway = pA, pressTotal = pT, pressDiff = pD,
           attacksHome = aH, attacksAway = aA, shotsHome = sH, shotsAway = sA,
           cornersHome = cH, cornersAway = cA, success = True, error = None \<rparr>)"

text \<open>
  The body of the \<open>try\<close> block after the length check, in the order of the source. The
  first exception ends it.
\<close>

definition extractAndScore :: "json \<Rightarrow> json \<Rightarrow> js_error + pressure_result" where
  "extractAndScore homeStats awayStats =
     thenE (getStatValue homeStats ''Total attacks'') (\<lambda>aH.
     thenE (getStatValue awayStats ''Total attacks'') (\<lambda>aA.
     thenE (getStatValue homeStats ''Shots on Goal'') (\<lambda>sH.
     thenE (getStatValue awayStats ''Shots on Goal'') (\<lambda>sA.
     thenE (getStatValue homeStats ''Corner Kicks'') (\<lambda>cH.
     thenE (getStatValue awayStats ''Corner Kicks'') (\<lambda>cA.
       Inr (scored aH aA sH sA cH cA)))))))"

text \<open>
  \<open>execute\<close>. The \<open>catch\<close> clause turns every exception of the body into a result with
  \<open>success: false\<close>, so the tool returns a result on every input.
\<close>

definition calculatePressure :: "json list \<Rightarrow> pressure_result" where
  "calculatePressure stats =
     (if length stats < 2 then failed (Literal ''Insufficient statistics data'')
      else case extractAndScore (stats ! 0) (stats ! 1) of
             Inl e \<Rightarrow> failed (EngineMessage e)
           | Inr r \<Rightarrow> r)"

section \<open>The persistent store\<close>

text \<open>
  The two tables of \<open>initDatabase\<close>. Time stamps are milliseconds. \<open>goal_happened\<close> is
  \<open>BOOLEAN DEFAULT NULL\<close>: \<open>None\<close> is the unresolved state. \<open>football_thresholds\<close>
  holds at most one row (\<open>CHECK (id = 1)\<close> on the primary key).
\<close>

type_synonym timestamp = int

record alert_row =
  alert_id :: int
  fixture_id :: int
  minute :: int
  press_total :: real
  press_diff :: real
  corners :: int
  shots_on_goal :: int
  goals_at_alert :: int
  goal_happened :: "bool option"
  created_at :: timestamp

record threshold_row =
  threshold_total :: real
  threshold_diff :: real
  escanteios_10min :: int
  last_updated :: timestamp

record database =
  football_alerts :: "alert_row list"
  football_thresholds :: "threshold_row option"

text \<open>
  What a tool run reads from its surroundings: the two environment variables, whether the
  database answers (\<open>client.connect\<close> and the queries), and the clock \<open>NOW()\<close>.
\<close>

record environment =
  DATABASE_URL :: "string option"
  API_FOOTBALL_KEY :: "string option"
  db_reachable :: bool
  now :: timestamp

text \<open>\<open>!connectionString\<close> is true for an unset variable and for the empty string.\<close>

definition configured :: "string option \<Rightarrow> bool" where
  "configured v = (case v of None \<Rightarrow> False | Some s \<Rightarrow> s \<noteq> [])"

definition hours24 :: int where
  "hours24 = 24 * 60 * 60 * 1000"

definition minutes10 :: int where
  "minutes10 = 10 * 60 * 1000"

section \<open>ThresholdAdjuster: the tool \<open>performDailyAnalysis\<close>\<close>

record thresholds =
  thresholdTotal :: real
  thresholdDiff :: real
  escanteios10min :: int

record analysis_result =
  matchesMonitored :: nat
  alertsSent :: nat
  goalsConfirmed :: nat
  accuracy :: real
  currentThresholds :: thresholds
  recommendedThresholds :: thresholds
  analysis_success :: bool
  analysis_error :: "err_msg option"

definition analysis_failed :: "err_msg \<Rightarrow> analysis_result" where
  "analysis_failed msg =
     \<lparr> matchesMonitored = 0, alertsSent = 0, goalsConfirmed = 0, accuracy = 0,
       currentThresholds = \<lparr> thresholdTotal = 70, thresholdDiff = 15, escanteios10min = 3 \<rparr>,
       recommendedThresholds = \<lparr> thresholdTotal = 70, thresholdDiff = 15, escanteios10min = 3 \<rparr>,
       analysis_success = False, analysis_error = Some msg \<rparr>"

text \<open>
  The rows of \<open>statsQuery\<close>: created within the last 24 hours and resolved. The three
  counts of the query are the number of these rows, the number of them with
  \<open>goal_happened = true\<close> and the number of distinct fixtures among them; \<open>parseInt\<close> of
  a count's decimal text is the count.
\<close>

definition statsRows :: "timestamp \<Rightarrow> alert_row list \<Rightarrow> alert_row list" where
  "statsRows t rows =
     filter (\<lambda>a. created_at a > t - hours24 \<and> goal_happened a \<noteq> None) rows"

definition total_alerts :: "alert_row list \<Rightarrow> nat" where
  "total_alerts rows = length rows"

definition goals_confirmed :: "alert_row list \<Rightarrow> nat" where
  "goals_confirmed rows = length (filter (\<lambda>a. goal_happened a = Some True) rows)"

definition unique_matches :: "alert_row list \<Rightarrow> nat" where
  "unique_matches rows = length (remdups (map fixture_id rows))"

text \<open>Line 71.\<close>

definition accuracyOf :: "nat \<Rightarrow> nat \<Rightarrow> real" where
  "accuracyOf sent confirmed =
     (if sent > 0 then (real confirmed / real sent) * 100 else 0)"

text \<open>Lines 99 to 108.\<close>

definition adjustmentFactor :: "real \<Rightarrow> nat \<Rightarrow> real" where
  "adjustmentFactor acc sent =
     (if acc > 85 then - 0.05
      else if acc < 50 \<and> sent \<ge> 3 then 0.05
      else 0)"

text \<open>
  \<open>Math.round(x * 100) / 100\<close> on exact reals; \<open>Math.round\<close> rounds a half upwards.
  The code computes the product and the quotient in doubles, so where the third decimal of
  \<open>x\<close> is a 5 its result can be one hundredth away from this one.
\<close>

definition round2 :: "real \<Rightarrow> real" where
  "round2 x = real_of_int \<lfloor>x * 100 + 1 / 2\<rfloor> / 100"

text \<open>Lines 110 to 116: the values the tool recommends, before rounding.\<close>

definition newThresholds :: "real \<Rightarrow> threshold_row \<Rightarrow> thresholds" where
  "newThresholds factor row =
     \<lparr> thresholdTotal = max 50 (min 120 (threshold_total row * (1 + factor))),
       thresholdDiff = max 10 (min 30 (threshold_diff row * (1 + factor))),
       escanteios10min = max 2 (min 6 (escanteios_10min row)) \<rparr>"

text \<open>
  The parameters of the \<open>UPDATE\<close> (lines 134 to 138) as the row they set, with
  \<open>last_updated = NOW()\<close>: the new values are passed unrounded, and the row of the model
  records the parameters as passed. The columns are \<open>DECIMAL(10, 2)\<close>, so the database
  server keeps them rounded to two decimals; that rounding, applied by the server to the decimal
  text of a double, is not represented.
\<close>

definition rowOf :: "thresholds \<Rightarrow> timestamp \<Rightarrow> threshold_row" where
  "rowOf new t =
     \<lparr> threshold_total = thresholdTotal new, threshold_diff = thresholdDiff new,
       escanteios_10min = escanteios10min new, last_updated = t \<rparr>"

text \<open>The field \<open>recommendedThresholds\<close> of the result (lines 153 to 157).\<close>

definition rounded :: "thresholds \<Rightarrow> thresholds" where
  "rounded new =
     \<lparr> thresholdTotal = round2 (thresholdTotal new),
       thresholdDiff = round2 (thresholdDiff new),
       escanteios10min = escanteios10min new \<rparr>"

text \<open>\<open>execute\<close>, returning the result and the database it leaves.\<close>

definition performDailyAnalysis :: "environment \<Rightarrow> database \<Rightarrow> analysis_result \<times> database" where
  "performDailyAnalysis env db =
     (if \<not> configured (DATABASE_URL env) then
        (analysis_failed (Literal ''DATABASE_URL not configured''), db)
      else if \<not> db_reachable env then
        (analysis_failed (EngineMessage DatabaseError), db)
      else
        let stats = statsRows (now env) (football_alerts db);
            sent = total_alerts stats;
            confirmed = goals_confirmed stats;
            monitored = unique_matches stats;
            acc = accuracyOf sent confirmed
        in case football_thresholds db of
             None \<Rightarrow> (analysis_failed (EngineMessage ReadPropertyOfUndefined), db)
           | Some row \<Rightarrow>
               let factor = adjustmentFactor acc sent;
                   new = newThresholds factor row;
                   db' = (if factor \<noteq> 0
                          then db\<lparr> football_thresholds := Some (rowOf new (now env)) \<rparr>
                          else db)
               in (\<lparr> matchesMonitored = monitored, alertsSent = sent,
                      goalsConfirmed = confirmed, accuracy = round2 acc,
                      currentThresholds =
                        \<lparr> thresholdTotal = threshold_total row,
                          thresholdDiff = threshold_diff row,
                          escanteios10min = escanteios_10min row \<rparr>,
                      recommendedThresholds = rounded new,
                      analysis_success = True, analysis_error = None \<rparr>, db'))"

section \<open>OutcomeVerifier: the tool \<open>verifyGoalOutcomes\<close>\<close>

text \<open>
  What the football API answers for one fixture: \<open>goals.home\<close> and \<open>goals.away\<close> are
  numbers or \<open>null\<close>, and \<open>goals\<close> itself may be missing.
\<close>

record score =
  home :: "int option"
  away :: "int option"

record fixture =
  goals :: "score option"

text \<open>
  The outcome of the \<open>try\<close> block of one loop iteration, up to the test of the response.
  \<open>Failed\<close> stands for an exception anywhere in the block (the request is rejected or
  times out, the body cannot be read, the \<open>UPDATE\<close> is rejected): the \<open>catch\<close> clause logs
  it and the iteration ends. \<open>Fetched fs\<close> is an answer whose \<open>response\<close> array is
  \<open>fs\<close>; a missing \<open>response\<close> behaves as the empty array.
\<close>

datatype fetch_outcome = Failed | Fetched "fixture list"

record verify_result =
  checked :: nat
  updated :: nat
  verify_success :: bool
  verify_error :: "err_msg option"

text \<open>Lines 64 to 68; \<open>x || 0\<close> replaces \<open>null\<close> by \<open>0\<close>.\<close>

definition homeGoals :: "fixture \<Rightarrow> int" where
  "homeGoals f = (case goals f of None \<Rightarrow> 0 | Some g \<Rightarrow> (case home g of None \<Rightarrow> 0 | Some n \<Rightarrow> n))"

definition awayGoals :: "fixture \<Rightarrow> int" where
  "awayGoals f = (case goals f of None \<Rightarrow> 0 | Some g \<Rightarrow> (case away g of None \<Rightarrow> 0 | Some n \<Rightarrow> n))"

definition goalHappenedFor :: "fixture \<Rightarrow> alert_row \<Rightarrow> bool" where
  "goalHappenedFor f alert =
     (let totalGoalsNow = homeGoals f + awayGoals f;
          goalsAtAlert = goals_at_alert alert
      in totalGoalsNow > goalsAtAlert)"

text \<open>\<open>UPDATE football_alerts SET goal_happened = $1 WHERE id = $2\<close>.\<close>

definition updateGoalHappened :: "bool \<Rightarrow> int \<Rightarrow> alert_row list \<Rightarrow> alert_row list" where
  "updateGoalHappened b i rows =
     map (\<lambda>r. if alert_id r = i then r\<lparr> goal_happened := Some b \<rparr> else r) rows"

text \<open>One iteration of the loop, on the table and the counter \<open>updated\<close>.\<close>

definition verifyOne ::
  "fetch_outcome \<Rightarrow> alert_row \<Rightarrow> alert_row list \<times> nat \<Rightarrow> alert_row list \<times> nat" where
  "verifyOne outcome alert st =
     (case outcome of
        Failed \<Rightarrow> st
      | Fetched [] \<Rightarrow> st
      | Fetched (f # _) \<Rightarrow>
          (updateGoalHappened (goalHappenedFor f alert) (alert_id alert) (fst st), snd st + 1))"

text \<open>
  The loop over the selected alerts. \<open>feed k i\<close> is the outcome of the \<open>k\<close>-th request of
  the run, made for fixture \<open>i\<close>.
\<close>

fun verifyLoop ::
  "(nat \<Rightarrow> int \<Rightarrow> fetch_outcome) \<Rightarrow> nat \<Rightarrow> alert_row list \<Rightarrow> alert_row list \<times> nat
     \<Rightarrow> alert_row list \<times> nat" where
  "verifyLoop feed k [] st = st"
| "verifyLoop feed k (alert # rest) st =
     verifyLoop feed (Suc k) rest (verifyOne (feed k (fixture_id alert)) alert st)"

text \<open>
  The selection query: unresolved, older than ten minutes, oldest first, at most 50. Rows
  with equal \<open>created_at\<close> keep their table order.
\<close>

definition unverifiedAlerts :: "timestamp \<Rightarrow> alert_row list \<Rightarrow> alert_row list" where
  "unverifiedAlerts t rows =
     take 50 (sort_key created_at
       (filter (\<lambda>a. goal_happened a = None \<and> created_at a < t - minutes10) rows))"

definition verifyGoalOutcomes ::
  "environment \<Rightarrow> (nat \<Rightarrow> int \<Rightarrow> fetch_outcome) \<Rightarrow> database \<Rightarrow> verify_result \<times> database" where
  "verifyGoalOutcomes env feed db =
     (if \<not> configured (DATABASE_URL env) \<or> \<not> configured (API_FOOTBALL_KEY env) then
        (\<lparr> checked = 0, updated = 0, verify_success = False,
           verify_error = Some (Literal ''Missing DATABASE_URL or API_FOOTBALL_KEY'') \<rparr>, db)
      else if \<not> db_reachable env then
        (\<lparr> checked = 0, updated = 0, verify_success = False,
           verify_error = Some (EngineMessage DatabaseError) \<rparr>, db)
      else
        let alerts = unverifiedAlerts (now env) (football_alerts db);
            st = verifyLoop feed 0 alerts (football_alerts db, 0)
        in (\<lparr> checked = length alerts, updated = snd st, verify_success = True,
              verify_error = None \<rparr>,
            db\<lparr> football_alerts := fst st \<rparr>))"

section \<open>AlertPolicy\<close>

text \<open>
  Modelled from the spec: the alert decision has no function in the source. The repository
  states the rule only as instructions to the language-model agent
  (\<open>footballMonitorAgent\<close>: total pressure \<open>>=\<close> \<open>threshold_total\<close>, or pressure difference
  \<open>>=\<close> \<open>threshold_diff\<close> and shots on goal \<open>>= 2\<close>, or corners \<open>>=\<close> \<open>escanteios_10min\<close>),
  and the specification describes it as a pure function of the pressure metrics and the
  thresholds, the disjunction of these three conditions. The shots-on-goal count and the
  corner count it compares are supplied by the caller.
\<close>

definition alertPolicy :: "pressure_result \<Rightarrow> real \<Rightarrow> real \<Rightarrow> thresholds \<Rightarrow> bool" where
  "alertPolicy m shotsOnGoal recentCorners th =
     (pressTotal m \<ge> thresholdTotal th
      \<or> (pressDiff m \<ge> thresholdDiff th \<and> shotsOnGoal \<ge> 2)
      \<or> recentCorners \<ge> real_of_int (escanteios10min th))"

section \<open>Example inputs\<close>

text \<open>A statistics entry and a team entry in the format of the football API.\<close>

definition statItem :: "string \<Rightarrow> json \<Rightarrow> json" where
  "statItem name v = JObj [(''type'', JStr name), (''value'', v)]"

definition teamStats :: "json list \<Rightarrow> json" where
  "teamStats items = JObj [(''statistics'', JArr items)]"

text \<open>The snapshot of end-to-end scenario A.\<close>

definition scenarioA :: "json list" where
  "scenarioA =
     [teamStats [statItem ''Total attacks'' (JNum 10), statItem ''Shots on Goal'' (JNum 3),
                 statItem ''Corner Kicks'' (JNum 5)],
      teamStats [statItem ''Total attacks'' (JNum 4), statItem ''Shots on Goal'' (JNum 1),
                 statItem ''Corner Kicks'' (JNum 2)]]"

text \<open>A snapshot with the statistics in another letter case and another order.\<close>

definition sampleStats :: "json list" where
  "sampleStats =
     [teamStats [statItem ''Corner Kicks'' (JNum 6), statItem ''shots on goal'' (JNum 2),
                 statItem ''TOTAL ATTACKS'' (JNum 40)],
      teamStats [statItem ''Shots on Goal'' (JNum 1), statItem ''Total attacks'' (JNum 25)]]"

definition sampleEnv :: environment where
  "sampleEnv =
     \<lparr> DATABASE_URL = Some ''postgresql://localhost:5432/mastra'',
       API_FOOTBALL_KEY = Some ''key'', db_reachable = True, now = 100000000 \<rparr>"

text \<open>An alert stored one hour before the clock of \<open>sampleEnv\<close>.\<close>

definition sampleAlert :: "int \<Rightarrow> int \<Rightarrow> bool option \<Rightarrow> alert_row" where
  "sampleAlert i atAlert outcome =
     \<lparr> alert_id = i, fixture_id = 1000 + i, minute = 60, press_total = 80, press_diff = 20,
       corners = 4, shots_on_goal = 3, goals_at_alert = atAlert, goal_happened = outcome,
       created_at = 96400000 \<rparr>"

definition defaultRow :: threshold_row where
  "defaultRow =
     \<lparr> threshold_total = 70, threshold_diff = 15, escanteios_10min = 3, last_updated = 0 \<rparr>"

text \<open>Scenario B: ten resolved alerts, nine of them followed by a goal.\<close>

definition scenarioB :: database where
  "scenarioB =
     \<lparr> football_alerts =
         map (\<lambda>i. sampleAlert i 0 (Some True)) [1, 2, 3, 4, 5, 6, 7, 8, 9]
           @ [sampleAlert 10 0 (Some False)],
       football_thresholds = Some defaultRow \<rparr>"

text \<open>Scenario C: four resolved alerts, one of them followed by a goal.\<close>

definition scenarioC :: database where
  "scenarioC =
     \<lparr> football_alerts =
         [sampleAlert 1 0 (Some True), sampleAlert 2 0 (Some False),
          sampleAlert 3 1 (Some False), sampleAlert 4 2 (Some False)],
       football_thresholds = Some defaultRow \<rparr>"

text \<open>Two resolved alerts, one of them followed by a goal: an accuracy of 50.\<close>

definition steadyDb :: database where
  "steadyDb =
     \<lparr> football_alerts = [sampleAlert 1 0 (Some True), sampleAlert 2 0 (Some False)],
       football_thresholds = Some defaultRow \<rparr>"

text \<open>Scenario B on a stored total of 66.5, which the factor lowers to 63.175.\<close>

definition fineDb :: database where
  "fineDb = scenarioB\<lparr> football_thresholds := Some (defaultRow\<lparr> threshold_total := 66.5 \<rparr>) \<rparr>"

text \<open>
  Scenario D and its neighbours: three unresolved alerts with one goal at alert time. The
  feed answers 2:0 for the first, fails for the second and answers 1:0 for the third.
\<close>

definition pendingDb :: database where
  "pendingDb =
     \<lparr> football_alerts = [sampleAlert 1 1 None, sampleAlert 2 1 None, sampleAlert 3 1 None],
       football_thresholds = Some defaultRow \<rparr>"

definition scoreLine :: "int \<Rightarrow> int \<Rightarrow> fixture" where
  "scoreLine h a = \<lparr> goals = Some \<lparr> home = Some h, away = Some a \<rparr> \<rparr>"

definition sampleFeed :: "nat \<Rightarrow> int \<Rightarrow> fetch_outcome" where
  "sampleFeed k i =
     (if i = 1001 then Fetched [scoreLine 2 0]
      else if i = 1003 then Fetched [scoreLine 1 0]
      else Failed)"

section \<open>Properties of PressureScorer\<close>

lemma extractAndScore_Inr:
  assumes "extractAndScore h a = Inr r"
  shows "\<exists>aH aA sH sA cH cA.
           getStatValue h ''Total attacks'' = Inr aH \<and> getStatValue a ''Total attacks'' = Inr aA \<and>
           getStatValue h ''Shots on Goal'' = Inr sH \<and> getStatValue a ''Shots on Goal'' = Inr sA \<and>
           getStatValue h ''Corner Kicks'' = Inr cH \<and> getStatValue a ''Corner Kicks'' = Inr cA \<and>
           r = scored aH aA sH sA cH cA"
  using assms by (auto simp: extractAndScore_def thenE_def split: sum.splits)

lemma scored_formula:
  "pressHome (scored aH aA sH sA cH cA) = aH * 0.5 + sH * 1.5 + cH * 0.8"
  "pressAway (scored aH aA sH sA cH cA) = aA * 0.5 + sA * 1.5 + cA * 0.8"
  "pressTotal (scored aH aA sH sA cH cA) =
     pressHome (scored aH aA sH sA cH cA) + pressAway (scored aH aA sH sA cH cA)"
  "pressDiff (scored aH aA sH sA cH cA) =
     \<bar>pressHome (scored aH aA sH sA cH cA) - pressAway (scored aH aA sH sA cH cA)\<bar>"
  "attacksHome (scored aH aA sH sA cH cA) = aH" "attacksAway (scored aH aA sH sA cH cA) = aA"
  "shotsHome (scored aH aA sH sA cH cA) = sH" "shotsAway (scored aH aA sH sA cH cA) = sA"
  "cornersHome (scored aH aA sH sA cH cA) = cH" "cornersAway (scored aH aA sH sA cH cA) = cA"
  "success (scored aH aA sH sA cH cA) = True"
  by (simp_all add: scored_def Let_def)

lemma calculatePressure_cases:
  "calculatePressure stats = failed (Literal ''Insufficient statistics data'')
   \<or> (\<exists>e. calculatePressure stats = failed (EngineMessage e))
   \<or> (\<exists>aH aA sH sA cH cA. calculatePressure stats = scored aH aA sH sA cH cA)"
  using extractAndScore_Inr [of "stats ! 0" "stats ! 1"]
  by (auto simp: calculatePressure_def split: sum.splits)

text \<open>
  Claim C1. For every statistics array with at least two entries, the result of
  \<open>calculatePressure\<close> satisfies, for each team, pressure = attacks * 0.5 + shots on goal
  * 1.5 + corners * 0.8 on its own fields, \<open>pressTotal = pressHome + pressAway\<close> and
  \<open>pressDiff = |pressHome - pressAway|\<close>. When \<open>getStatValue\<close> yields a count for each of
  the six statistics, the result is successful and the pressures are the weighted sums of
  these counts. (When an entry makes \<open>getStatValue\<close> throw, all fields are zero.)
\<close>
theorem calculatePressure_formula:
  assumes "2 \<le> length stats"
  shows "pressHome (calculatePressure stats) =
           attacksHome (calculatePressure stats) * 0.5 + shotsHome (calculatePressure stats) * 1.5
             + cornersHome (calculatePressure stats) * 0.8
       \<and> pressAway (calculatePressure stats) =
           attacksAway (calculatePressure stats) * 0.5 + shotsAway (calculatePressure stats) * 1.5
             + cornersAway (calculatePressure stats) * 0.8
       \<and> pressTotal (calculatePressure stats) =
           pressHome (calculatePressure stats) + pressAway (calculatePressure stats)
       \<and> pressDiff (calculatePressure stats) =
           \<bar>pressHome (calculatePressure stats) - pressAway (calculatePressure stats)\<bar>
       \<and> (\<forall>aH aA sH sA cH cA.
             getStatValue (stats ! 0) ''Total attacks'' = Inr aH \<and>
             getStatValue (stats ! 1) ''Total attacks'' = Inr aA \<and>
             getStatValue (stats ! 0) ''Shots on Goal'' = Inr sH \<and>
             getStatValue (stats ! 1) ''Shots on Goal'' = Inr sA \<and>
             getStatValue (stats ! 0) ''Corner Kicks'' = Inr cH \<and>
             getStatValue (stats ! 1) ''Corner Kicks'' = Inr cA
             \<longrightarrow> success (calculatePressure stats)
               \<and> pressHome (calculatePressure stats) = aH * 0.5 + sH * 1.5 + cH * 0.8
               \<and> pressAway (calculatePressure stats) = aA * 0.5 + sA * 1.5 + cA * 0.8)"
proof -
  have fields: "pressHome r = attacksHome r * 0.5 + shotsHome r * 1.5 + cornersHome r * 0.8
       \<and> pressAway r = attacksAway r * 0.5 + shotsAway r * 1.5 + cornersAway r * 0.8
       \<and> pressTotal r = pressHome r + pressAway r
       \<and> pressDiff r = \<bar>pressHome r - pressAway r\<bar>"
    if "r = calculatePressure stats" for r
    using calculatePressure_cases [of stats] that
    by (elim disjE exE) (simp_all add: failed_def scored_formula)
  have ok: "success (calculatePressure stats)
        \<and> pressHome (calculatePressure stats) = aH * 0.5 + sH * 1.5 + cH * 0.8
        \<and> pressAway (calculatePressure stats) = aA * 0.5 + sA * 1.5 + cA * 0.8"
    if "getStatValue (stats ! 0) ''Total attacks'' = Inr aH"
       "getStatValue (stats ! 1) ''Total attacks'' = Inr aA"
       "getStatValue (stats ! 0) ''Shots on Goal'' = Inr sH"
       "getStatValue (stats ! 1) ''Shots on Goal'' = Inr sA"
       "getStatValue (stats ! 0) ''Corner Kicks'' = Inr cH"
       "getStatValue (stats ! 1) ''Corner Kicks'' = Inr cA"
    for aH aA sH sA cH cA
  proof -
    have "calculatePressure stats = scored aH aA sH sA cH cA"
      using assms that by (simp add: calculatePressure_def extractAndScore_def thenE_def)
    then show ?thesis by (simp add: scored_formula)
  qed
  from fields [OF refl] ok show ?thesis by blast
qed

lemma lower_keys:
  "toLowerCase ''Total attacks'' = ''total attacks''"
  "toLowerCase ''Shots on Goal'' = ''shots on goal''"
  "toLowerCase ''Corner Kicks'' = ''corner kicks''"
  "toLowerCase ''TOTAL ATTACKS'' = ''total attacks''"
  "toLowerCase ''shots on goal'' = ''shots on goal''"
  by (simp_all add: toLowerCase_def lowerChar_def)

lemma statLoop_statItem_num:
  "statLoop key (statItem name (JNum n) # rest) =
     (if toLowerCase name = toLowerCase key then Inr n else statLoop key rest)"
  by (simp add: typeMatches_def statItem_def thenE_def)

lemma getStatValue_teamStats: "getStatValue (teamStats items) key = statLoop key items"
  by (simp add: getStatValue_def teamStats_def thenE_def)

lemmas stat_eval = getStatValue_teamStats statLoop_statItem_num lower_keys

lemma sampleStats_values:
  "getStatValue (sampleStats ! 0) ''Total attacks'' = Inr 40"
  "getStatValue (sampleStats ! 1) ''Total attacks'' = Inr 25"
  "getStatValue (sampleStats ! 0) ''Shots on Goal'' = Inr 2"
  "getStatValue (sampleStats ! 1) ''Shots on Goal'' = Inr 1"
  "getStatValue (sampleStats ! 0) ''Corner Kicks'' = Inr 6"
  "getStatValue (sampleStats ! 1) ''Corner Kicks'' = Inr 0"
  by (simp_all add: sampleStats_def stat_eval del: statLoop.simps(2))

theorem calculatePressure_formula_witness:
  "2 \<le> length sampleStats
   \<and> success (calculatePressure sampleStats)
   \<and> pressHome (calculatePressure sampleStats) = 40 * 0.5 + 2 * 1.5 + 6 * 0.8
   \<and> pressAway (calculatePressure sampleStats) = 25 * 0.5 + 1 * 1.5 + 0 * 0.8
   \<and> pressTotal (calculatePressure sampleStats) =
       pressHome (calculatePressure sampleStats) + pressAway (calculatePressure sampleStats)
   \<and> pressDiff (calculatePressure sampleStats) =
       \<bar>pressHome (calculatePressure sampleStats) - pressAway (calculatePressure sampleStats)\<bar>"
proof -
  have len: "2 \<le> length sampleStats" by (simp add: sampleStats_def)
  from calculatePressure_formula [OF len] sampleStats_values len show ?thesis by blast
qed

text \<open>
  Claim C5. With fewer than two entries \<open>calculatePressure\<close> returns the failure result:
  \<open>success = false\<close>, the error \<open>Insufficient statistics data\<close> and every metric zero.
  The tool returns a result on every input, since the \<open>catch\<close> clause of \<open>execute\<close>
  turns each exception into a failure result.
\<close>
theorem calculatePressure_insufficient:
  assumes "length stats < 2"
  shows "calculatePressure stats =
           \<lparr> pressHome = 0, pressAway = 0, pressTotal = 0, pressDiff = 0,
             attacksHome = 0, attacksAway = 0, shotsHome = 0, shotsAway = 0,
             cornersHome = 0, cornersAway = 0, success = False,
             error = Some (Literal ''Insufficient statistics data'') \<rparr>"
  using assms by (simp add: calculatePressure_def failed_def)

theorem calculatePressure_insufficient_witness:
  "length [teamStats [statItem ''Total attacks'' (JNum 10)]] < 2
   \<and> success (calculatePressure [teamStats [statItem ''Total attacks'' (JNum 10)]]) = False
   \<and> error (calculatePressure [teamStats [statItem ''Total attacks'' (JNum 10)]]) =
       Some (Literal ''Insufficient statistics data'')
   \<and> pressTotal (calculatePressure [teamStats [statItem ''Total attacks'' (JNum 10)]]) = 0"
  using calculatePressure_insufficient [of "[teamStats [statItem ''Total attacks'' (JNum 10)]]"]
  by simp

lemma scenarioA_result: "calculatePressure scenarioA = scored 10 4 3 1 5 2"
  by (simp add: scenarioA_def calculatePressure_def extractAndScore_def thenE_def stat_eval
           del: statLoop.simps(2))

text \<open>
  Claim C8, as amended. On the snapshot of scenario A the tool returns
  \<open>pressHome = 13.5\<close>, \<open>pressAway = 5.1\<close>, \<open>pressTotal = 18.6\<close> and
  \<open>pressDiff = 8.4\<close>.
\<close>
theorem scenarioA_pressure:
  "pressHome (calculatePressure scenarioA) = 13.5
   \<and> pressAway (calculatePressure scenarioA) = 5.1
   \<and> pressTotal (calculatePressure scenarioA) = 18.6
   \<and> pressDiff (calculatePressure scenarioA) = 8.4"
  by (simp add: scenarioA_result scored_def)

text \<open>
  Claim C8 as stated gives \<open>pressHome = 14.5\<close>, \<open>pressTotal = 19.6\<close> and
  \<open>pressDiff = 9.4\<close>; the tool does not return these values, since
  \<open>10 * 0.5 + 3 * 1.5 + 5 * 0.8 = 13.5\<close>.
\<close>
theorem scenarioA_pressure_counterexample:
  "\<not> (pressHome (calculatePressure scenarioA) = 14.5
      \<and> pressAway (calculatePressure scenarioA) = 5.1
      \<and> pressTotal (calculatePressure scenarioA) = 19.6
      \<and> pressDiff (calculatePressure scenarioA) = 9.4)"
  by (simp add: scenarioA_result scored_def)

section \<open>Properties of ThresholdAdjuster\<close>

lemma round2_bounds:
  assumes "real_of_int a / 100 \<le> x" and "x \<le> real_of_int b / 100"
  shows "real_of_int a / 100 \<le> round2 x \<and> round2 x \<le> real_of_int b / 100"
proof -
  have "real_of_int a \<le> x * 100 + 1 / 2" using assms(1) by (simp add: field_simps)
  then have lo: "a \<le> \<lfloor>x * 100 + 1 / 2\<rfloor>" by (simp add: le_floor_iff)
  have "x * 100 + 1 / 2 < real_of_int b + 1" using assms(2) by (simp add: field_simps)
  then have hi: "\<lfloor>x * 100 + 1 / 2\<rfloor> \<le> b" by (simp add: floor_le_iff)
  from lo hi show ?thesis by (simp add: round2_def divide_right_mono)
qed

lemma round2_total: "50 \<le> x \<Longrightarrow> x \<le> 120 \<Longrightarrow> 50 \<le> round2 x \<and> round2 x \<le> 120"
  using round2_bounds [of 5000 x 12000] by simp

lemma round2_diff: "10 \<le> x \<Longrightarrow> x \<le> 30 \<Longrightarrow> 10 \<le> round2 x \<and> round2 x \<le> 30"
  using round2_bounds [of 1000 x 3000] by simp

lemma newThresholds_range:
  "50 \<le> thresholdTotal (newThresholds f row)" "thresholdTotal (newThresholds f row) \<le> 120"
  "10 \<le> thresholdDiff (newThresholds f row)" "thresholdDiff (newThresholds f row) \<le> 30"
  "escanteios10min (newThresholds f row) = max 2 (min 6 (escanteios_10min row))"
  by (simp_all add: newThresholds_def)

lemma rounded_range:
  "50 \<le> thresholdTotal (rounded (newThresholds f row))"
  "thresholdTotal (rounded (newThresholds f row)) \<le> 120"
  "10 \<le> thresholdDiff (rounded (newThresholds f row))"
  "thresholdDiff (rounded (newThresholds f row)) \<le> 30"
  "escanteios10min (rounded (newThresholds f row)) = max 2 (min 6 (escanteios_10min row))"
  using round2_total [of "thresholdTotal (newThresholds f row)"]
        round2_diff [of "thresholdDiff (newThresholds f row)"]
  by (simp_all add: rounded_def newThresholds_range)

text \<open>The tool on the path where the database is configured, answers and holds a thresholds row.\<close>

lemma performDailyAnalysis_ok:
  assumes "configured (DATABASE_URL env)" and "db_reachable env"
    and "football_thresholds db = Some row"
  shows "performDailyAnalysis env db =
    (\<lparr> matchesMonitored = unique_matches (statsRows (now env) (football_alerts db)),
       alertsSent = total_alerts (statsRows (now env) (football_alerts db)),
       goalsConfirmed = goals_confirmed (statsRows (now env) (football_alerts db)),
       accuracy = round2 (accuracyOf (total_alerts (statsRows (now env) (football_alerts db)))
                    (goals_confirmed (statsRows (now env) (football_alerts db)))),
       currentThresholds =
         \<lparr> thresholdTotal = threshold_total row, thresholdDiff = threshold_diff row,
           escanteios10min = escanteios_10min row \<rparr>,
       recommendedThresholds =
         rounded (newThresholds
           (adjustmentFactor (accuracyOf (total_alerts (statsRows (now env) (football_alerts db)))
              (goals_confirmed (statsRows (now env) (football_alerts db))))
              (total_alerts (statsRows (now env) (football_alerts db)))) row),
       analysis_success = True, analysis_error = None \<rparr>,
     if adjustmentFactor (accuracyOf (total_alerts (statsRows (now env) (football_alerts db)))
              (goals_confirmed (statsRows (now env) (football_alerts db))))
              (total_alerts (statsRows (now env) (football_alerts db))) \<noteq> 0
     then db\<lparr> football_thresholds := Some (rowOf (newThresholds
           (adjustmentFactor (accuracyOf (total_alerts (statsRows (now env) (football_alerts db)))
              (goals_confirmed (statsRows (now env) (football_alerts db))))
              (total_alerts (statsRows (now env) (football_alerts db)))) row) (now env)) \<rparr>
     else db)"
  using assms by (simp add: performDailyAnalysis_def Let_def)

text \<open>On every other path the tool fails with the default thresholds and writes nothing.\<close>

lemma performDailyAnalysis_failed:
  assumes "\<not> (configured (DATABASE_URL env) \<and> db_reachable env \<and> football_thresholds db \<noteq> None)"
  shows "\<exists>msg. performDailyAnalysis env db = (analysis_failed msg, db)"
  using assms by (auto simp: performDailyAnalysis_def Let_def split: option.splits)


text \<open>
  Claim C2. When the database is configured, answers and holds the thresholds row, the
  tool counts the resolved alerts of the last 24 hours and those among them followed by a
  goal, and with \<open>accuracy = goalsConfirmed / alertsSent * 100\<close> (\<open>0\<close> when there is no
  alert; the result reports it rounded to two decimals) exactly one of three branches
  applies: above 85 the factor is \<open>-0.05\<close>, below 50 with at least three alerts it is
  \<open>+0.05\<close>, and otherwise it is \<open>0\<close> and nothing is written. The three conditions
  exclude one another and cover every case.
\<close>
theorem adjustment_rule:
  fixes env :: environment and db :: database and row :: threshold_row
  defines "r \<equiv> fst (performDailyAnalysis env db)"
  defines "acc \<equiv> (if alertsSent r = 0 then 0
                   else real (goalsConfirmed r) / real (alertsSent r) * 100)"
  assumes "configured (DATABASE_URL env)" and "db_reachable env"
    and "football_thresholds db = Some row"
  shows "alertsSent r = length (statsRows (now env) (football_alerts db))
       \<and> goalsConfirmed r =
           length (filter (\<lambda>a. goal_happened a = Some True)
             (statsRows (now env) (football_alerts db)))
       \<and> accuracy r = round2 acc
       \<and> (85 < acc \<longrightarrow>
            recommendedThresholds r = rounded (newThresholds (- 0.05) row)
          \<and> snd (performDailyAnalysis env db) =
              db\<lparr> football_thresholds := Some (rowOf (newThresholds (- 0.05) row) (now env)) \<rparr>)
       \<and> (acc < 50 \<and> 3 \<le> alertsSent r \<longrightarrow>
            recommendedThresholds r = rounded (newThresholds 0.05 row)
          \<and> snd (performDailyAnalysis env db) =
              db\<lparr> football_thresholds := Some (rowOf (newThresholds 0.05 row) (now env)) \<rparr>)
       \<and> (\<not> 85 < acc \<and> \<not> (acc < 50 \<and> 3 \<le> alertsSent r) \<longrightarrow>
            recommendedThresholds r = rounded (newThresholds 0 row)
          \<and> snd (performDailyAnalysis env db) = db)"
proof -
  let ?sent = "total_alerts (statsRows (now env) (football_alerts db))"
  let ?conf = "goals_confirmed (statsRows (now env) (football_alerts db))"
  note eq = performDailyAnalysis_ok [OF assms(3-5)]
  have sent: "alertsSent r = ?sent" and conf: "goalsConfirmed r = ?conf"
    by (simp_all add: r_def eq)
  have acc: "accuracyOf ?sent ?conf = acc"
    by (simp add: acc_def sent conf accuracyOf_def)
  have hi: "adjustmentFactor acc ?sent = - 0.05" if "85 < acc"
    using that by (simp add: adjustmentFactor_def)
  have lo: "adjustmentFactor acc ?sent = 0.05" if "acc < 50" "3 \<le> ?sent"
    using that by (simp add: adjustmentFactor_def)
  have mid: "adjustmentFactor acc ?sent = 0" if "\<not> 85 < acc" "\<not> (acc < 50 \<and> 3 \<le> ?sent)"
    using that by (simp add: adjustmentFactor_def)
  have c1: "alertsSent r = length (statsRows (now env) (football_alerts db))"
    by (simp add: sent total_alerts_def)
  have c2: "goalsConfirmed r = length (filter (\<lambda>a. goal_happened a = Some True)
             (statsRows (now env) (football_alerts db)))"
    by (simp add: conf goals_confirmed_def)
  have c3: "accuracy r = round2 acc"
    by (simp add: r_def eq acc)
  have c4: "recommendedThresholds r = rounded (newThresholds (- 0.05) row)
          \<and> snd (performDailyAnalysis env db) =
              db\<lparr> football_thresholds := Some (rowOf (newThresholds (- 0.05) row) (now env)) \<rparr>"
    if "85 < acc"
  proof -
    have f: "adjustmentFactor acc ?sent = - 0.05" using hi that by blast
    show ?thesis by (simp add: r_def eq acc f)
  qed
  have c5: "recommendedThresholds r = rounded (newThresholds 0.05 row)
          \<and> snd (performDailyAnalysis env db) =
              db\<lparr> football_thresholds := Some (rowOf (newThresholds 0.05 row) (now env)) \<rparr>"
    if "acc < 50" "3 \<le> alertsSent r"
  proof -
    have f: "adjustmentFactor acc ?sent = 0.05" using lo that sent by simp
    show ?thesis by (simp add: r_def eq acc f)
  qed
  have c6: "recommendedThresholds r = rounded (newThresholds 0 row)
          \<and> snd (performDailyAnalysis env db) = db"
    if "\<not> 85 < acc" "\<not> (acc < 50 \<and> 3 \<le> alertsSent r)"
  proof -
    have f: "adjustmentFactor acc ?sent = 0" using mid that sent by simp
    show ?thesis by (simp add: r_def eq acc f)
  qed
  from c1 c2 c3 c4 c5 c6 show ?thesis by blast
qed



text \<open>The aggregates and the tool's outcome on the example databases.\<close>

lemma sampleEnv_ok:
  "configured (DATABASE_URL sampleEnv)" "db_reachable sampleEnv"
  "configured (API_FOOTBALL_KEY sampleEnv)" "now sampleEnv = 100000000"
  by (simp_all add: sampleEnv_def configured_def)

lemma sampleAlert_recent:
  "created_at (sampleAlert i g outcome) > 100000000 - hours24"
  "goal_happened (sampleAlert i g outcome) = outcome"
  by (simp_all add: sampleAlert_def hours24_def)

lemma scenarioB_counts:
  "football_thresholds scenarioB = Some defaultRow"
  "length (statsRows (now sampleEnv) (football_alerts scenarioB)) = 10"
  "length (filter (\<lambda>a. goal_happened a = Some True)
     (statsRows (now sampleEnv) (football_alerts scenarioB))) = 9"
  by (simp_all add: scenarioB_def statsRows_def sampleEnv_ok sampleAlert_recent del: not_None_eq)

lemma scenarioC_counts:
  "football_thresholds scenarioC = Some defaultRow"
  "length (statsRows (now sampleEnv) (football_alerts scenarioC)) = 4"
  "length (filter (\<lambda>a. goal_happened a = Some True)
     (statsRows (now sampleEnv) (football_alerts scenarioC))) = 1"
  by (simp_all add: scenarioC_def statsRows_def sampleEnv_ok sampleAlert_recent del: not_None_eq)

lemma steadyDb_counts:
  "football_thresholds steadyDb = Some defaultRow"
  "length (statsRows (now sampleEnv) (football_alerts steadyDb)) = 2"
  "length (filter (\<lambda>a. goal_happened a = Some True)
     (statsRows (now sampleEnv) (football_alerts steadyDb))) = 1"
  by (simp_all add: steadyDb_def statsRows_def sampleEnv_ok sampleAlert_recent del: not_None_eq)

theorem adjustment_rule_witness:
  "configured (DATABASE_URL sampleEnv) \<and> db_reachable sampleEnv
   \<and> football_thresholds scenarioB = Some defaultRow
   \<and> football_thresholds scenarioC = Some defaultRow
   \<and> football_thresholds steadyDb = Some defaultRow
   \<and> accuracy (fst (performDailyAnalysis sampleEnv scenarioB)) = 90
   \<and> recommendedThresholds (fst (performDailyAnalysis sampleEnv scenarioB)) =
       \<lparr> thresholdTotal = 66.5, thresholdDiff = 14.25, escanteios10min = 3 \<rparr>
   \<and> football_thresholds (snd (performDailyAnalysis sampleEnv scenarioB)) =
       Some \<lparr> threshold_total = 66.5, threshold_diff = 14.25, escanteios_10min = 3,
              last_updated = now sampleEnv \<rparr>
   \<and> accuracy (fst (performDailyAnalysis sampleEnv scenarioC)) = 25
   \<and> recommendedThresholds (fst (performDailyAnalysis sampleEnv scenarioC)) =
       \<lparr> thresholdTotal = 73.5, thresholdDiff = 15.75, escanteios10min = 3 \<rparr>
   \<and> football_thresholds (snd (performDailyAnalysis sampleEnv scenarioC)) =
       Some \<lparr> threshold_total = 73.5, threshold_diff = 15.75, escanteios_10min = 3,
              last_updated = now sampleEnv \<rparr>
   \<and> accuracy (fst (performDailyAnalysis sampleEnv steadyDb)) = 50
   \<and> recommendedThresholds (fst (performDailyAnalysis sampleEnv steadyDb)) =
       \<lparr> thresholdTotal = 70, thresholdDiff = 15, escanteios10min = 3 \<rparr>
   \<and> snd (performDailyAnalysis sampleEnv steadyDb) = steadyDb"
  using adjustment_rule [OF sampleEnv_ok(1,2) scenarioB_counts(1)]
        adjustment_rule [OF sampleEnv_ok(1,2) scenarioC_counts(1)]
        adjustment_rule [OF sampleEnv_ok(1,2) steadyDb_counts(1)]
  by (clarsimp simp: sampleEnv_ok(1,2) scenarioB_counts scenarioC_counts steadyDb_counts
        newThresholds_def defaultRow_def round2_def rounded_def rowOf_def)


lemma analysis_failed_fields:
  "alertsSent (analysis_failed msg) = 0"
  "recommendedThresholds (analysis_failed msg) =
     \<lparr> thresholdTotal = 70, thresholdDiff = 15, escanteios10min = 3 \<rparr>"
  by (simp_all add: analysis_failed_def)

lemma fineDb_counts:
  "football_thresholds fineDb = Some (defaultRow\<lparr> threshold_total := 66.5 \<rparr>)"
  "length (statsRows (now sampleEnv) (football_alerts fineDb)) = 10"
  "length (filter (\<lambda>a. goal_happened a = Some True)
     (statsRows (now sampleEnv) (football_alerts fineDb))) = 9"
  using scenarioB_counts by (simp_all add: fineDb_def)

lemma fineDb_run:
  "performDailyAnalysis sampleEnv fineDb =
     (\<lparr> matchesMonitored = unique_matches (statsRows (now sampleEnv) (football_alerts fineDb)),
        alertsSent = 10, goalsConfirmed = 9, accuracy = 90,
        currentThresholds = \<lparr> thresholdTotal = 66.5, thresholdDiff = 15, escanteios10min = 3 \<rparr>,
        recommendedThresholds =
          \<lparr> thresholdTotal = 63.18, thresholdDiff = 14.25, escanteios10min = 3 \<rparr>,
        analysis_success = True, analysis_error = None \<rparr>,
      fineDb\<lparr> football_thresholds :=
        Some \<lparr> threshold_total = 63.175, threshold_diff = 14.25, escanteios_10min = 3,
               last_updated = now sampleEnv \<rparr> \<rparr>)"
  by (simp add: performDailyAnalysis_ok [OF sampleEnv_ok(1,2) fineDb_counts(1)]
        fineDb_counts total_alerts_def goals_confirmed_def accuracyOf_def adjustmentFactor_def
        newThresholds_def defaultRow_def round2_def rounded_def rowOf_def)

lemma fineDb_changed: "snd (performDailyAnalysis sampleEnv fineDb) \<noteq> fineDb"
proof
  assume "snd (performDailyAnalysis sampleEnv fineDb) = fineDb"
  then have "football_thresholds (snd (performDailyAnalysis sampleEnv fineDb)) =
    Some (defaultRow\<lparr> threshold_total := 66.5 \<rparr>)"
    by (simp add: fineDb_counts(1))
  then show False by (simp add: fineDb_run defaultRow_def)
qed

text \<open>
  Claim C3. For every stored row and every accuracy, the new values lie in the ranges:
  the total in \<open>[50, 120]\<close> and the difference in \<open>[10, 30]\<close>, and the new
  \<open>escanteios10min\<close> is the stored one clamped to \<open>[2, 6]\<close>, whatever the factor. The
  same ranges hold for the recommendation the tool returns (rounded, or the defaults of a
  failed run) and for every row it writes, and a stored \<open>escanteios10min\<close> within
  \<open>[2, 6]\<close> is never changed.
\<close>
theorem adjusted_thresholds_in_range:
  fixes env :: environment and db :: database and row :: threshold_row
    and acc :: real and sent :: nat
  defines "r \<equiv> fst (performDailyAnalysis env db)"
  defines "db' \<equiv> snd (performDailyAnalysis env db)"
  shows "50 \<le> thresholdTotal (newThresholds (adjustmentFactor acc sent) row)
       \<and> thresholdTotal (newThresholds (adjustmentFactor acc sent) row) \<le> 120
       \<and> 10 \<le> thresholdDiff (newThresholds (adjustmentFactor acc sent) row)
       \<and> thresholdDiff (newThresholds (adjustmentFactor acc sent) row) \<le> 30
       \<and> escanteios10min (newThresholds (adjustmentFactor acc sent) row) =
           max 2 (min 6 (escanteios_10min row))
       \<and> 50 \<le> thresholdTotal (recommendedThresholds r)
       \<and> thresholdTotal (recommendedThresholds r) \<le> 120
       \<and> 10 \<le> thresholdDiff (recommendedThresholds r)
       \<and> thresholdDiff (recommendedThresholds r) \<le> 30
       \<and> (db' = db
          \<or> (\<exists>new. football_thresholds db' = Some new
                \<and> 50 \<le> threshold_total new \<and> threshold_total new \<le> 120
                \<and> 10 \<le> threshold_diff new \<and> threshold_diff new \<le> 30))
       \<and> (\<forall>old. football_thresholds db = Some old
              \<and> 2 \<le> escanteios_10min old \<and> escanteios_10min old \<le> 6
            \<longrightarrow> (\<exists>new. football_thresholds db' = Some new
                   \<and> escanteios_10min new = escanteios_10min old))"
proof -
  have tool: "50 \<le> thresholdTotal (recommendedThresholds r)
       \<and> thresholdTotal (recommendedThresholds r) \<le> 120
       \<and> 10 \<le> thresholdDiff (recommendedThresholds r)
       \<and> thresholdDiff (recommendedThresholds r) \<le> 30
       \<and> (db' = db
          \<or> (\<exists>new. football_thresholds db' = Some new
                \<and> 50 \<le> threshold_total new \<and> threshold_total new \<le> 120
                \<and> 10 \<le> threshold_diff new \<and> threshold_diff new \<le> 30))
       \<and> (\<forall>old. football_thresholds db = Some old
              \<and> 2 \<le> escanteios_10min old \<and> escanteios_10min old \<le> 6
            \<longrightarrow> (\<exists>new. football_thresholds db' = Some new
                   \<and> escanteios_10min new = escanteios_10min old))"
  proof (cases "configured (DATABASE_URL env) \<and> db_reachable env \<and> football_thresholds db \<noteq> None")
    case True
    then obtain stored where stored: "football_thresholds db = Some stored" by auto
    from True have cfg: "configured (DATABASE_URL env)" and up: "db_reachable env" by simp_all
    note eq = performDailyAnalysis_ok [OF cfg up stored]
    show ?thesis
      unfolding r_def db'_def eq
      by (simp add: rounded_range newThresholds_range rowOf_def stored)
  next
    case False
    from performDailyAnalysis_failed [OF False]
    obtain msg where "performDailyAnalysis env db = (analysis_failed msg, db)" by blast
    then show ?thesis
      by (simp add: r_def db'_def analysis_failed_fields)
  qed
  with newThresholds_range [of "adjustmentFactor acc sent" row] show ?thesis by blast
qed

theorem adjusted_thresholds_in_range_witness:
  "football_thresholds fineDb = Some (defaultRow\<lparr> threshold_total := 66.5 \<rparr>)
   \<and> 2 \<le> escanteios_10min (defaultRow\<lparr> threshold_total := 66.5 \<rparr>)
   \<and> escanteios_10min (defaultRow\<lparr> threshold_total := 66.5 \<rparr>) \<le> 6
   \<and> snd (performDailyAnalysis sampleEnv fineDb) \<noteq> fineDb
   \<and> (\<exists>new. football_thresholds (snd (performDailyAnalysis sampleEnv fineDb)) = Some new
         \<and> 50 \<le> threshold_total new \<and> threshold_total new \<le> 120
         \<and> 10 \<le> threshold_diff new \<and> threshold_diff new \<le> 30
         \<and> escanteios_10min new = 3)
   \<and> 50 \<le> thresholdTotal (recommendedThresholds (fst (performDailyAnalysis sampleEnv fineDb)))
   \<and> thresholdTotal (recommendedThresholds (fst (performDailyAnalysis sampleEnv fineDb))) \<le> 120"
proof -
  note changed = fineDb_changed
  have esc: "escanteios_10min (defaultRow\<lparr> threshold_total := 66.5 \<rparr>) = 3"
    by (simp add: defaultRow_def)
  from adjusted_thresholds_in_range [of 90 10 defaultRow sampleEnv fineDb] changed esc
    fineDb_counts(1)
  show ?thesis by auto
qed


lemma steadyDb_run:
  "alertsSent (fst (performDailyAnalysis sampleEnv steadyDb)) = 2"
  "goalsConfirmed (fst (performDailyAnalysis sampleEnv steadyDb)) = 1"
  by (simp_all add: performDailyAnalysis_ok [OF sampleEnv_ok(1,2) steadyDb_counts(1)]
        steadyDb_counts total_alerts_def goals_confirmed_def)

text \<open>
  Claim C6. When the accuracy lies in \<open>[50, 85]\<close> the tool leaves the database as it
  found it, so a second run right after the first (same clock) finds the same database,
  returns the same result and leaves the same database again. Whether or not it writes, a
  successful run returns the stored thresholds as \<open>currentThresholds\<close> and the rounded
  new values as \<open>recommendedThresholds\<close>.
\<close>
theorem no_adjustment_no_write:
  fixes env :: environment and db :: database
  defines "r \<equiv> fst (performDailyAnalysis env db)"
  defines "acc \<equiv> (if alertsSent r = 0 then 0
                   else real (goalsConfirmed r) / real (alertsSent r) * 100)"
  shows "(50 \<le> acc \<and> acc \<le> 85 \<longrightarrow>
            snd (performDailyAnalysis env db) = db
          \<and> performDailyAnalysis env (snd (performDailyAnalysis env db)) =
              performDailyAnalysis env db)
       \<and> (\<forall>row. configured (DATABASE_URL env) \<and> db_reachable env
              \<and> football_thresholds db = Some row \<longrightarrow>
            currentThresholds r =
              \<lparr> thresholdTotal = threshold_total row, thresholdDiff = threshold_diff row,
                escanteios10min = escanteios_10min row \<rparr>
          \<and> recommendedThresholds r =
              rounded (newThresholds (adjustmentFactor acc (alertsSent r)) row))"
proof -
  let ?sent = "total_alerts (statsRows (now env) (football_alerts db))"
  let ?conf = "goals_confirmed (statsRows (now env) (football_alerts db))"
  have same: "snd (performDailyAnalysis env db) = db" if range: "50 \<le> acc" "acc \<le> 85"
  proof (cases "configured (DATABASE_URL env) \<and> db_reachable env \<and> football_thresholds db \<noteq> None")
    case True
    then obtain row where row: "football_thresholds db = Some row" by auto
    from True have cfg: "configured (DATABASE_URL env)" and up: "db_reachable env" by simp_all
    note eq = performDailyAnalysis_ok [OF cfg up row]
    have "accuracyOf ?sent ?conf = acc"
      by (simp add: acc_def r_def eq accuracyOf_def)
    with range have "adjustmentFactor (accuracyOf ?sent ?conf) ?sent = 0"
      by (simp add: adjustmentFactor_def)
    then show ?thesis by (simp add: eq)
  next
    case False
    from performDailyAnalysis_failed [OF False] show ?thesis by auto
  qed
  have both: "currentThresholds r =
              \<lparr> thresholdTotal = threshold_total row, thresholdDiff = threshold_diff row,
                escanteios10min = escanteios_10min row \<rparr>
          \<and> recommendedThresholds r =
              rounded (newThresholds (adjustmentFactor acc (alertsSent r)) row)"
    if "configured (DATABASE_URL env)" "db_reachable env" "football_thresholds db = Some row"
    for row
  proof -
    note eq = performDailyAnalysis_ok [OF that]
    have "accuracyOf ?sent ?conf = acc" "alertsSent r = ?sent"
      by (simp_all add: acc_def r_def eq accuracyOf_def)
    then show ?thesis by (simp add: r_def eq)
  qed
  from same both show ?thesis by simp
qed

theorem no_adjustment_no_write_witness:
  "(50::real) \<le> real 1 / real 2 * 100 \<and> real 1 / real 2 * 100 \<le> (85::real)
   \<and> configured (DATABASE_URL sampleEnv) \<and> db_reachable sampleEnv
   \<and> football_thresholds steadyDb = Some defaultRow
   \<and> snd (performDailyAnalysis sampleEnv steadyDb) = steadyDb
   \<and> performDailyAnalysis sampleEnv (snd (performDailyAnalysis sampleEnv steadyDb)) =
       performDailyAnalysis sampleEnv steadyDb
   \<and> currentThresholds (fst (performDailyAnalysis sampleEnv steadyDb)) =
       \<lparr> thresholdTotal = 70, thresholdDiff = 15, escanteios10min = 3 \<rparr>
   \<and> recommendedThresholds (fst (performDailyAnalysis sampleEnv steadyDb)) =
       \<lparr> thresholdTotal = 70, thresholdDiff = 15, escanteios10min = 3 \<rparr>"
  using no_adjustment_no_write [of sampleEnv steadyDb]
  by (simp add: steadyDb_run sampleEnv_ok(1,2) steadyDb_counts(1) adjustmentFactor_def
        newThresholds_def defaultRow_def round2_def rounded_def)

section \<open>Properties of AlertPolicy\<close>

text \<open>
  Claim C7. With the metrics fixed, raising any of the three thresholds never turns a
  no-alert verdict into an alert.
\<close>
theorem alertPolicy_monotone:
  assumes "thresholdTotal th \<le> thresholdTotal th'"
    and "thresholdDiff th \<le> thresholdDiff th'"
    and "escanteios10min th \<le> escanteios10min th'"
    and "\<not> alertPolicy m shotsOnGoal recentCorners th"
  shows "\<not> alertPolicy m shotsOnGoal recentCorners th'"
  using assms unfolding alertPolicy_def by (auto simp: not_le)

theorem alertPolicy_monotone_witness:
  "thresholdTotal \<lparr> thresholdTotal = 70, thresholdDiff = 15, escanteios10min = 3 \<rparr>
     \<le> thresholdTotal \<lparr> thresholdTotal = 80, thresholdDiff = 20, escanteios10min = 4 \<rparr>
   \<and> thresholdDiff \<lparr> thresholdTotal = 70, thresholdDiff = 15, escanteios10min = 3 \<rparr>
     \<le> thresholdDiff \<lparr> thresholdTotal = 80, thresholdDiff = 20, escanteios10min = 4 \<rparr>
   \<and> escanteios10min \<lparr> thresholdTotal = 70, thresholdDiff = 15, escanteios10min = 3 \<rparr>
     \<le> escanteios10min \<lparr> thresholdTotal = 80, thresholdDiff = 20, escanteios10min = 4 \<rparr>
   \<and> \<not> alertPolicy (calculatePressure scenarioA) 3 2
         \<lparr> thresholdTotal = 70, thresholdDiff = 15, escanteios10min = 3 \<rparr>
   \<and> \<not> alertPolicy (calculatePressure scenarioA) 3 2
         \<lparr> thresholdTotal = 80, thresholdDiff = 20, escanteios10min = 4 \<rparr>"
proof -
  have quiet: "\<not> alertPolicy (calculatePressure scenarioA) 3 2
         \<lparr> thresholdTotal = 70, thresholdDiff = 15, escanteios10min = 3 \<rparr>"
    by (simp add: alertPolicy_def scenarioA_result scored_def)
  from alertPolicy_monotone [OF _ _ _ quiet,
      of "\<lparr> thresholdTotal = 80, thresholdDiff = 20, escanteios10min = 4 \<rparr>"] quiet
  show ?thesis by simp
qed

section \<open>Properties of OutcomeVerifier\<close>

text \<open>One iteration changes at most the rows with the alert's id, and only their outcome.\<close>

lemma verifyOne_length: "length (fst (verifyOne outcome a st)) = length (fst st)"
  by (simp add: verifyOne_def updateGoalHappened_def split: fetch_outcome.splits list.splits)

lemma verifyOne_nth_other:
  assumes "i < length (fst st)" and "alert_id (fst st ! i) \<noteq> alert_id a"
  shows "fst (verifyOne outcome a st) ! i = fst st ! i"
  using assms
  by (simp add: verifyOne_def updateGoalHappened_def split: fetch_outcome.splits list.splits)

lemma verifyOne_nth_same:
  assumes "i < length (fst st)" and "alert_id (fst st ! i) = alert_id a"
  shows "fst (verifyOne outcome a st) ! i =
           (case outcome of
              Fetched (f # fs) \<Rightarrow> (fst st ! i)\<lparr> goal_happened := Some (goalHappenedFor f a) \<rparr>
            | _ \<Rightarrow> fst st ! i)"
  using assms
  by (simp add: verifyOne_def updateGoalHappened_def split: fetch_outcome.splits list.splits)

lemma verifyOne_alert_id:
  assumes "i < length (fst st)"
  shows "alert_id (fst (verifyOne outcome a st) ! i) = alert_id (fst st ! i)"
  using assms
  by (simp add: verifyOne_def updateGoalHappened_def split: fetch_outcome.splits list.splits)

lemma verifyLoop_length: "length (fst (verifyLoop feed k batch st)) = length (fst st)"
  by (induction batch arbitrary: k st) (simp_all add: verifyOne_length)

lemma verifyLoop_nth_other:
  assumes "i < length (fst st)" and "\<forall>a \<in> set batch. alert_id a \<noteq> alert_id (fst st ! i)"
  shows "fst (verifyLoop feed k batch st) ! i = fst st ! i"
  using assms
proof (induction batch arbitrary: k st)
  case Nil
  then show ?case by simp
next
  case (Cons a rest)
  let ?st = "verifyOne (feed k (fixture_id a)) a st"
  have keep: "fst ?st ! i = fst st ! i"
    using Cons.prems by (simp add: verifyOne_nth_other)
  have "fst (verifyLoop feed (Suc k) rest ?st) ! i = fst ?st ! i"
    using Cons.prems keep by (intro Cons.IH) (simp_all add: verifyOne_length)
  with keep show ?case by simp
qed

text \<open>
  The row of the \<open>j\<close>-th selected alert after the loop: resolved by the outcome of the
  \<open>j\<close>-th request when that request returned a fixture, untouched otherwise.
\<close>

lemma verifyLoop_nth:
  assumes "distinct (map alert_id batch)" and "j < length batch" and "i < length (fst st)"
    and "alert_id (fst st ! i) = alert_id (batch ! j)"
  shows "fst (verifyLoop feed k batch st) ! i =
           (case feed (k + j) (fixture_id (batch ! j)) of
              Fetched (f # fs) \<Rightarrow>
                (fst st ! i)\<lparr> goal_happened := Some (goalHappenedFor f (batch ! j)) \<rparr>
            | _ \<Rightarrow> fst st ! i)"
  using assms
proof (induction batch arbitrary: k j st)
  case Nil
  then show ?case by simp
next
  case (Cons a rest)
  let ?st = "verifyOne (feed k (fixture_id a)) a st"
  have len: "i < length (fst ?st)" using Cons.prems(3) by (simp add: verifyOne_length)
  show ?case
  proof (cases j)
    case 0
    with Cons.prems have same: "alert_id (fst st ! i) = alert_id a" by simp
    have "alert_id a \<notin> alert_id ` set rest" using Cons.prems(1) by simp
    then have "\<forall>b \<in> set rest. alert_id b \<noteq> alert_id a" by (metis imageI)
    then have "\<forall>b \<in> set rest. alert_id b \<noteq> alert_id (fst ?st ! i)"
      using Cons.prems(3) same by (simp add: verifyOne_alert_id)
    then have "fst (verifyLoop feed (Suc k) rest ?st) ! i = fst ?st ! i"
      using len by (rule verifyLoop_nth_other [rotated])
    then show ?thesis
      using Cons.prems(3) same unfolding 0
      by (simp add: verifyOne_nth_same split: fetch_outcome.split list.split)
  next
    case (Suc j')
    with Cons.prems have j': "j' < length rest"
      and id: "alert_id (fst st ! i) = alert_id (rest ! j')" by simp_all
    have "alert_id a \<notin> alert_id ` set rest" using Cons.prems(1) by simp
    then have "alert_id (rest ! j') \<noteq> alert_id a"
      using j' by (metis imageI nth_mem)
    with id have keep: "fst ?st ! i = fst st ! i"
      using Cons.prems(3) by (simp add: verifyOne_nth_other)
    have "fst (verifyLoop feed (Suc k) rest ?st) ! i =
           (case feed (Suc k + j') (fixture_id (rest ! j')) of
              Fetched (f # fs) \<Rightarrow>
                (fst ?st ! i)\<lparr> goal_happened := Some (goalHappenedFor f (rest ! j')) \<rparr>
            | _ \<Rightarrow> fst ?st ! i)"
      using Cons.prems(1) j' len id keep by (intro Cons.IH) simp_all
    then show ?thesis
      using keep unfolding Suc by (simp split: fetch_outcome.split list.split)
  qed
qed

text \<open>The selection returns unresolved rows of the table, each at most once.\<close>

lemma unverifiedAlerts_set:
  assumes "a \<in> set (unverifiedAlerts t rows)"
  shows "a \<in> set rows \<and> goal_happened a = None \<and> created_at a < t - minutes10"
proof -
  from assms have "a \<in> set (sort_key created_at
      (filter (\<lambda>a. goal_happened a = None \<and> created_at a < t - minutes10) rows))"
    unfolding unverifiedAlerts_def by (rule in_set_takeD)
  then show ?thesis by simp
qed

lemma unverifiedAlerts_distinct:
  assumes "distinct (map alert_id rows)"
  shows "distinct (map alert_id (unverifiedAlerts t rows))"
proof -
  let ?sel = "filter (\<lambda>a. goal_happened a = None \<and> created_at a < t - minutes10) rows"
  from assms have "distinct (map alert_id ?sel)" by (rule distinct_map_filter)
  then have "distinct (map alert_id (sort_key created_at ?sel))"
    by (simp add: distinct_map)
  then have "distinct (take 50 (map alert_id (sort_key created_at ?sel)))"
    by (rule distinct_take)
  then show ?thesis by (simp add: unverifiedAlerts_def take_map)
qed

lemma unverifiedAlerts_length: "length (unverifiedAlerts t rows) \<le> 50"
  by (simp add: unverifiedAlerts_def)

lemma same_id_same_row:
  assumes "distinct (map alert_id rows)" and "x \<in> set rows" and "y \<in> set rows"
    and "alert_id x = alert_id y"
  shows "x = y"
  using assms by (meson distinct_map inj_onD)

text \<open>The run on the path where both variables are set and the database answers.\<close>

lemma verifyGoalOutcomes_ok:
  assumes "configured (DATABASE_URL env)" and "configured (API_FOOTBALL_KEY env)"
    and "db_reachable env"
  shows "verifyGoalOutcomes env feed db =
     (\<lparr> checked = length (unverifiedAlerts (now env) (football_alerts db)),
        updated = snd (verifyLoop feed 0 (unverifiedAlerts (now env) (football_alerts db))
                    (football_alerts db, 0)),
        verify_success = True, verify_error = None \<rparr>,
      db\<lparr> football_alerts :=
        fst (verifyLoop feed 0 (unverifiedAlerts (now env) (football_alerts db))
               (football_alerts db, 0)) \<rparr>)"
  using assms by (simp add: verifyGoalOutcomes_def Let_def)

lemma verifyGoalOutcomes_not_ok:
  assumes "\<not> (configured (DATABASE_URL env) \<and> configured (API_FOOTBALL_KEY env)
              \<and> db_reachable env)"
  shows "snd (verifyGoalOutcomes env feed db) = db"
  using assms by (auto simp: verifyGoalOutcomes_def)


text \<open>
  On that path every selected alert has a row in the table, and the run leaves it resolved
  by its own request or as it was.
\<close>

lemma verifyGoalOutcomes_row:
  assumes "configured (DATABASE_URL env)" and "configured (API_FOOTBALL_KEY env)"
    and "db_reachable env"
    and "distinct (map alert_id (football_alerts db))"
    and "j < length (unverifiedAlerts (now env) (football_alerts db))"
  shows "\<exists>i < length (football_alerts db).
           football_alerts db ! i = unverifiedAlerts (now env) (football_alerts db) ! j
         \<and> football_alerts (snd (verifyGoalOutcomes env feed db)) ! i =
             (case feed j (fixture_id (unverifiedAlerts (now env) (football_alerts db) ! j)) of
                Fetched (f # fs) \<Rightarrow>
                  (unverifiedAlerts (now env) (football_alerts db) ! j)
                    \<lparr> goal_happened := Some (goalHappenedFor f
                         (unverifiedAlerts (now env) (football_alerts db) ! j)) \<rparr>
              | _ \<Rightarrow> unverifiedAlerts (now env) (football_alerts db) ! j)"
proof -
  let ?tbl = "football_alerts db"
  let ?batch = "unverifiedAlerts (now env) ?tbl"
  from assms(5) have "?batch ! j \<in> set ?batch" by simp
  then have "?batch ! j \<in> set ?tbl" using unverifiedAlerts_set by blast
  then obtain i where i: "i < length ?tbl" "?tbl ! i = ?batch ! j"
    by (auto simp: in_set_conv_nth)
  have "fst (verifyLoop feed 0 ?batch (?tbl, 0)) ! i =
          (case feed (0 + j) (fixture_id (?batch ! j)) of
             Fetched (f # fs) \<Rightarrow>
               (fst (?tbl, 0 :: nat) ! i)\<lparr> goal_happened := Some (goalHappenedFor f (?batch ! j)) \<rparr>
           | _ \<Rightarrow> fst (?tbl, 0 :: nat) ! i)"
    using unverifiedAlerts_distinct [OF assms(4)] assms(5) i
    by (intro verifyLoop_nth) simp_all
  then have "football_alerts (snd (verifyGoalOutcomes env feed db)) ! i =
          (case feed j (fixture_id (?batch ! j)) of
             Fetched (f # fs) \<Rightarrow> (?batch ! j)\<lparr> goal_happened := Some (goalHappenedFor f (?batch ! j)) \<rparr>
           | _ \<Rightarrow> ?batch ! j)"
    by (simp add: verifyGoalOutcomes_ok [OF assms(1-3)] i split: fetch_outcome.split list.split)
  with i show ?thesis by blast
qed

text \<open>
  Claim C4. Every row that was unresolved before a run and is resolved after it was among
  the selected alerts, its request returned a fixture, and the recorded outcome is
  \<open>homeGoals + awayGoals > goals_at_alert\<close>, a strict comparison; nothing else of the row
  changes. In scenario D (one goal at alert time, 2:0 fetched) the outcome is \<open>true\<close>; with
  1:0 fetched it is \<open>false\<close>.
\<close>

theorem goal_outcome_strict:
  fixes env :: environment and feed :: "nat \<Rightarrow> int \<Rightarrow> fetch_outcome" and db :: database
  defines "tbl \<equiv> football_alerts db"
  defines "tbl' \<equiv> football_alerts (snd (verifyGoalOutcomes env feed db))"
  defines "batch \<equiv> unverifiedAlerts (now env) tbl"
  assumes dist: "distinct (map alert_id tbl)"
    and i: "i < length tbl"
    and before: "goal_happened (tbl ! i) = None"
    and after: "goal_happened (tbl' ! i) = Some b"
  shows "\<exists>j f fs. j < length batch \<and> batch ! j = tbl ! i
           \<and> feed j (fixture_id (tbl ! i)) = Fetched (f # fs)
           \<and> b = (homeGoals f + awayGoals f > goals_at_alert (tbl ! i))
           \<and> tbl' ! i = (tbl ! i)\<lparr> goal_happened := Some b \<rparr>"
proof -
  have ok: "configured (DATABASE_URL env) \<and> configured (API_FOOTBALL_KEY env)
              \<and> db_reachable env"
  proof (rule ccontr)
    assume "\<not> ?thesis"
    then have "tbl' = tbl"
      unfolding tbl'_def tbl_def by (simp add: verifyGoalOutcomes_not_ok)
    with before after show False by simp
  qed
  then have run: "tbl' = fst (verifyLoop feed 0 batch (tbl, 0))"
    by (simp add: tbl'_def tbl_def batch_def verifyGoalOutcomes_ok)
  have "\<exists>a \<in> set batch. alert_id a = alert_id (tbl ! i)"
  proof (rule ccontr)
    assume "\<not> ?thesis"
    then have "\<forall>a \<in> set batch. alert_id a \<noteq> alert_id (fst (tbl, 0 :: nat) ! i)" by simp
    then have "fst (verifyLoop feed 0 batch (tbl, 0)) ! i = fst (tbl, 0 :: nat) ! i"
      using i by (intro verifyLoop_nth_other) simp_all
    with run before after show False by simp
  qed
  then obtain j where j: "j < length batch" and id: "alert_id (batch ! j) = alert_id (tbl ! i)"
    by (auto simp: in_set_conv_nth)
  have "batch ! j \<in> set tbl"
    using j unverifiedAlerts_set [of "batch ! j" "now env" tbl] by (simp add: batch_def)
  moreover have "tbl ! i \<in> set tbl" using i by simp
  ultimately have same: "batch ! j = tbl ! i"
    using id by (intro same_id_same_row [OF dist])
  have row: "tbl' ! i =
          (case feed (0 + j) (fixture_id (batch ! j)) of
             Fetched (f # fs) \<Rightarrow>
               (fst (tbl, 0 :: nat) ! i)\<lparr> goal_happened := Some (goalHappenedFor f (batch ! j)) \<rparr>
           | _ \<Rightarrow> fst (tbl, 0 :: nat) ! i)"
    unfolding run
    using unverifiedAlerts_distinct [OF dist, of "now env"] j i id
    by (intro verifyLoop_nth) (simp_all add: batch_def)
  show ?thesis
  proof (cases "feed j (fixture_id (tbl ! i))")
    case Failed
    with row same before after show ?thesis by simp
  next
    case (Fetched fixtures)
    show ?thesis
    proof (cases fixtures)
      case Nil
      with Fetched row same before after show ?thesis by simp
    next
      case (Cons f fs)
      with Fetched row same have row': "tbl' ! i =
          (tbl ! i)\<lparr> goal_happened := Some (goalHappenedFor f (tbl ! i)) \<rparr>" by simp
      with after have "b = (homeGoals f + awayGoals f > goals_at_alert (tbl ! i))"
        by (simp add: goalHappenedFor_def)
      with row' after j same Fetched Cons show ?thesis by auto
    qed
  qed
qed

text \<open>
  Claim C9. When the request for one selected alert fails, the run still succeeds and has
  checked the whole batch; the row of that alert is left as it was, unresolved; and every
  other selected alert whose request returns a fixture, before or after the failing one,
  is resolved by its own outcome.
\<close>

theorem fetch_failure_isolated:
  fixes env :: environment and feed :: "nat \<Rightarrow> int \<Rightarrow> fetch_outcome" and db :: database
  defines "tbl \<equiv> football_alerts db"
  defines "tbl' \<equiv> football_alerts (snd (verifyGoalOutcomes env feed db))"
  defines "batch \<equiv> unverifiedAlerts (now env) tbl"
  assumes cfg: "configured (DATABASE_URL env)" "configured (API_FOOTBALL_KEY env)"
      "db_reachable env"
    and dist: "distinct (map alert_id tbl)"
    and j: "j < length batch"
    and fail: "feed j (fixture_id (batch ! j)) = Failed"
  shows "verify_success (fst (verifyGoalOutcomes env feed db))
       \<and> checked (fst (verifyGoalOutcomes env feed db)) = length batch
       \<and> (\<exists>i < length tbl. tbl ! i = batch ! j \<and> tbl' ! i = batch ! j
             \<and> goal_happened (tbl' ! i) = None)
       \<and> (\<forall>j' f fs. j' < length batch
              \<and> feed j' (fixture_id (batch ! j')) = Fetched (f # fs) \<longrightarrow>
            (\<exists>i < length tbl. tbl ! i = batch ! j'
               \<and> tbl' ! i = (batch ! j')
                   \<lparr> goal_happened :=
                       Some (homeGoals f + awayGoals f > goals_at_alert (batch ! j')) \<rparr>))"
proof -
  have result: "verify_success (fst (verifyGoalOutcomes env feed db))
       \<and> checked (fst (verifyGoalOutcomes env feed db)) = length batch"
    by (simp add: verifyGoalOutcomes_ok [OF cfg] batch_def tbl_def)
  have "goal_happened (batch ! j) = None"
    using j unverifiedAlerts_set [of "batch ! j" "now env" tbl] by (simp add: batch_def)
  moreover from verifyGoalOutcomes_row [OF cfg dist [unfolded tbl_def] j [unfolded batch_def tbl_def], of feed]
  obtain i where "i < length tbl" "tbl ! i = batch ! j" "tbl' ! i = batch ! j"
    using fail by (auto simp: tbl_def tbl'_def batch_def)
  ultimately have failed: "\<exists>i < length tbl. tbl ! i = batch ! j \<and> tbl' ! i = batch ! j
             \<and> goal_happened (tbl' ! i) = None"
    by auto
  have others: "\<exists>i < length tbl. tbl ! i = batch ! j'
               \<and> tbl' ! i = (batch ! j')
                   \<lparr> goal_happened :=
                       Some (homeGoals f + awayGoals f > goals_at_alert (batch ! j')) \<rparr>"
    if "j' < length batch" "feed j' (fixture_id (batch ! j')) = Fetched (f # fs)" for j' f fs
    using verifyGoalOutcomes_row [OF cfg dist [unfolded tbl_def] that(1) [unfolded batch_def tbl_def], of feed]
      that(2)
    by (auto simp: tbl_def tbl'_def batch_def goalHappenedFor_def)
  from result failed others show ?thesis by blast
qed


text \<open>The run on the three pending alerts of the example.\<close>

lemma pendingDb_rows:
  "football_alerts pendingDb = [sampleAlert 1 1 None, sampleAlert 2 1 None, sampleAlert 3 1 None]"
  "distinct (map alert_id (football_alerts pendingDb))"
  "unverifiedAlerts (now sampleEnv) (football_alerts pendingDb) =
     [sampleAlert 1 1 None, sampleAlert 2 1 None, sampleAlert 3 1 None]"
  by (simp_all add: pendingDb_def sampleAlert_def unverifiedAlerts_def sampleEnv_def minutes10_def)

lemma sampleFeed_outcomes:
  "sampleFeed k (fixture_id (sampleAlert 1 g None)) = Fetched [scoreLine 2 0]"
  "sampleFeed k (fixture_id (sampleAlert 2 g None)) = Failed"
  "sampleFeed k (fixture_id (sampleAlert 3 g None)) = Fetched [scoreLine 1 0]"
  by (simp_all add: sampleFeed_def sampleAlert_def)

lemma scoreLine_goals: "homeGoals (scoreLine h a) = h" "awayGoals (scoreLine h a) = a"
  by (simp_all add: homeGoals_def awayGoals_def scoreLine_def)

lemma pendingDb_run:
  "football_alerts (snd (verifyGoalOutcomes sampleEnv sampleFeed pendingDb)) =
     [sampleAlert 1 1 (Some True), sampleAlert 2 1 None, sampleAlert 3 1 (Some False)]"
  by (simp add: verifyGoalOutcomes_ok [OF sampleEnv_ok(1,3,2)] pendingDb_rows(3))
     (simp add: pendingDb_rows(1) sampleFeed_def verifyOne_def updateGoalHappened_def
        goalHappenedFor_def scoreLine_goals sampleAlert_def)

theorem goal_outcome_strict_witness:
  "distinct (map alert_id (football_alerts pendingDb))
   \<and> 2 < length (football_alerts pendingDb)
   \<and> goal_happened (football_alerts pendingDb ! 0) = None
   \<and> goals_at_alert (football_alerts pendingDb ! 0) = 1
   \<and> goal_happened (football_alerts (snd (verifyGoalOutcomes sampleEnv sampleFeed pendingDb)) ! 0)
       = Some True
   \<and> (\<exists>j f fs. sampleFeed j (fixture_id (football_alerts pendingDb ! 0)) = Fetched (f # fs)
         \<and> True = (goals_at_alert (football_alerts pendingDb ! 0) < homeGoals f + awayGoals f))
   \<and> goal_happened (football_alerts pendingDb ! 2) = None
   \<and> goals_at_alert (football_alerts pendingDb ! 2) = 1
   \<and> goal_happened (football_alerts (snd (verifyGoalOutcomes sampleEnv sampleFeed pendingDb)) ! 2)
       = Some False
   \<and> (\<exists>j f fs. sampleFeed j (fixture_id (football_alerts pendingDb ! 2)) = Fetched (f # fs)
         \<and> False = (goals_at_alert (football_alerts pendingDb ! 2) < homeGoals f + awayGoals f))"
proof -
  have len0: "0 < length (football_alerts pendingDb)"
    and len2: "2 < length (football_alerts pendingDb)"
    by (simp_all add: pendingDb_rows(1))
  have before0: "goal_happened (football_alerts pendingDb ! 0) = None"
    and before2: "goal_happened (football_alerts pendingDb ! 2) = None"
    and at0: "goals_at_alert (football_alerts pendingDb ! 0) = 1"
    and at2: "goals_at_alert (football_alerts pendingDb ! 2) = 1"
    by (simp_all add: pendingDb_rows(1) sampleAlert_def)
  have after0: "goal_happened
      (football_alerts (snd (verifyGoalOutcomes sampleEnv sampleFeed pendingDb)) ! 0) = Some True"
    and after2: "goal_happened
      (football_alerts (snd (verifyGoalOutcomes sampleEnv sampleFeed pendingDb)) ! 2) = Some False"
    by (simp_all add: pendingDb_run sampleAlert_def)
  from goal_outcome_strict [where env = sampleEnv and feed = sampleFeed and db = pendingDb
      and i = 0 and b = True, OF pendingDb_rows(2) len0 before0 after0]
  have first: "\<exists>j f fs. sampleFeed j (fixture_id (football_alerts pendingDb ! 0)) = Fetched (f # fs)
         \<and> True = (goals_at_alert (football_alerts pendingDb ! 0) < homeGoals f + awayGoals f)"
    by blast
  from goal_outcome_strict [where env = sampleEnv and feed = sampleFeed and db = pendingDb
      and i = 2 and b = False, OF pendingDb_rows(2) len2 before2 after2]
  have third: "\<exists>j f fs. sampleFeed j (fixture_id (football_alerts pendingDb ! 2)) = Fetched (f # fs)
         \<and> False = (goals_at_alert (football_alerts pendingDb ! 2) < homeGoals f + awayGoals f)"
    by blast
  from pendingDb_rows(2) len2 before0 at0 after0 first before2 at2 after2 third
  show ?thesis by blast
qed

theorem fetch_failure_isolated_witness:
  "configured (DATABASE_URL sampleEnv) \<and> configured (API_FOOTBALL_KEY sampleEnv)
   \<and> db_reachable sampleEnv
   \<and> distinct (map alert_id (football_alerts pendingDb))
   \<and> 1 < length (unverifiedAlerts (now sampleEnv) (football_alerts pendingDb))
   \<and> sampleFeed 1 (fixture_id (unverifiedAlerts (now sampleEnv) (football_alerts pendingDb) ! 1))
       = Failed
   \<and> 2 < length (unverifiedAlerts (now sampleEnv) (football_alerts pendingDb))
   \<and> sampleFeed 2 (fixture_id (unverifiedAlerts (now sampleEnv) (football_alerts pendingDb) ! 2))
       = Fetched [scoreLine 1 0]
   \<and> verify_success (fst (verifyGoalOutcomes sampleEnv sampleFeed pendingDb))
   \<and> checked (fst (verifyGoalOutcomes sampleEnv sampleFeed pendingDb)) = 3
   \<and> (\<exists>i < length (football_alerts pendingDb).
         football_alerts pendingDb ! i = sampleAlert 2 1 None
       \<and> football_alerts (snd (verifyGoalOutcomes sampleEnv sampleFeed pendingDb)) ! i =
           sampleAlert 2 1 None)
   \<and> (\<exists>i < length (football_alerts pendingDb).
         football_alerts pendingDb ! i = sampleAlert 3 1 None
       \<and> football_alerts (snd (verifyGoalOutcomes sampleEnv sampleFeed pendingDb)) ! i =
           (sampleAlert 3 1 None)\<lparr> goal_happened := Some False \<rparr>)"
proof -
  have j1: "1 < length (unverifiedAlerts (now sampleEnv) (football_alerts pendingDb))"
    and j2: "2 < length (unverifiedAlerts (now sampleEnv) (football_alerts pendingDb))"
    by (simp_all add: pendingDb_rows(3))
  have fail: "sampleFeed 1
      (fixture_id (unverifiedAlerts (now sampleEnv) (football_alerts pendingDb) ! 1)) = Failed"
    by (simp add: pendingDb_rows(3) sampleFeed_outcomes)
  have later: "sampleFeed 2
      (fixture_id (unverifiedAlerts (now sampleEnv) (football_alerts pendingDb) ! 2)) =
        Fetched [scoreLine 1 0]"
    by (simp add: pendingDb_rows(3) sampleFeed_outcomes)
  note inst = fetch_failure_isolated [where env = sampleEnv and feed = sampleFeed
      and db = pendingDb and j = 1, OF sampleEnv_ok(1,3,2) pendingDb_rows(2) j1 fail]
  have ok: "verify_success (fst (verifyGoalOutcomes sampleEnv sampleFeed pendingDb))
      \<and> checked (fst (verifyGoalOutcomes sampleEnv sampleFeed pendingDb)) = 3"
    using inst by (simp add: pendingDb_rows(3))
  have failed: "\<exists>i < length (football_alerts pendingDb).
         football_alerts pendingDb ! i = sampleAlert 2 1 None
       \<and> football_alerts (snd (verifyGoalOutcomes sampleEnv sampleFeed pendingDb)) ! i =
           sampleAlert 2 1 None"
    using inst by (auto simp: pendingDb_rows(3))
  from inst have "\<forall>j' f fs.
      j' < length (unverifiedAlerts (now sampleEnv) (football_alerts pendingDb))
      \<and> sampleFeed j' (fixture_id (unverifiedAlerts (now sampleEnv) (football_alerts pendingDb) ! j'))
          = Fetched (f # fs) \<longrightarrow>
      (\<exists>i < length (football_alerts pendingDb).
         football_alerts pendingDb ! i =
           unverifiedAlerts (now sampleEnv) (football_alerts pendingDb) ! j'
       \<and> football_alerts (snd (verifyGoalOutcomes sampleEnv sampleFeed pendingDb)) ! i =
           (unverifiedAlerts (now sampleEnv) (football_alerts pendingDb) ! j')
             \<lparr> goal_happened := Some (homeGoals f + awayGoals f
                  > goals_at_alert (unverifiedAlerts (now sampleEnv) (football_alerts pendingDb) ! j')) \<rparr>)"
    by blast
  from this [rule_format, of 2 "scoreLine 1 0" "[]"] j2 later
  have resolved: "\<exists>i < length (football_alerts pendingDb).
         football_alerts pendingDb ! i = sampleAlert 3 1 None
       \<and> football_alerts (snd (verifyGoalOutcomes sampleEnv sampleFeed pendingDb)) ! i =
           (sampleAlert 3 1 None)\<lparr> goal_happened := Some False \<rparr>"
    by (simp add: pendingDb_rows(3) scoreLine_goals) (simp add: sampleAlert_def)
  from sampleEnv_ok(1,3,2) pendingDb_rows(2) j1 fail j2 later ok failed resolved
  show ?thesis by blast
qed

end
